theory Spec2Isabelle
  imports Main
begin

section \<open>The image component of the text editor\<close>

text \<open>
  The development embeds \<^verbatim>\<open>src/components/text-editor/plugins/ImagePlugin/ImageComponent.tsx\<close>:
  the load gate \<^verbatim>\<open>useSuspenseImage\<close> with its module-level \<^verbatim>\<open>imageCache\<close>, and the
  callbacks of \<^verbatim>\<open>ImageComponent\<close> (\<^verbatim>\<open>onDelete\<close>, \<^verbatim>\<open>onEnter\<close>, \<^verbatim>\<open>onEscape\<close>,
  \<^verbatim>\<open>onClick\<close>, \<^verbatim>\<open>onRightClick\<close>, \<^verbatim>\<open>setShowCaption\<close>, \<^verbatim>\<open>onResizeStart\<close>,
  \<^verbatim>\<open>onResizeEnd\<close>) together with the command registrations of its effect.

  Mutation is explicit state passing. A callback reads the values its closure
  captured (props, hook state, refs), reads the host editor, and returns the state
  after its calls, in the order in which the source makes them.
\<close>

subsection \<open>The load gate\<close>

text \<open>
  \<^verbatim>\<open>const imageCache = new Set()\<close> holds the sources whose load has completed.
  \<open>loads\<close> lists the \<^verbatim>\<open>Image\<close> objects that \<^verbatim>\<open>useSuspenseImage\<close> has created, by
  the source assigned to \<^verbatim>\<open>img.src\<close>, in creation order; the promise thrown together
  with the \<open>i\<close>-th image is \<open>Promise i\<close>, and \<open>resolved\<close> holds the promises whose
  \<^verbatim>\<open>resolve(null)\<close> has run.
\<close>

datatype promise = Promise nat

record gate =
  imageCache :: "string set"
  loads :: "string list"
  resolved :: "promise set"

text \<open>A call either returns or throws the promise that React's Suspense waits for.\<close>

datatype outcome = Returned | Thrown promise

definition useSuspenseImage :: "string \<Rightarrow> gate \<Rightarrow> outcome \<times> gate" where
  "useSuspenseImage src g =
     (if src \<notin> imageCache g
      then (Thrown (Promise (length (loads g))), g\<lparr>loads := loads g @ [src]\<rparr>)
      else (Returned, g))"

text \<open>
  \<^verbatim>\<open>img.onload\<close> of the \<open>i\<close>-th image: \<^verbatim>\<open>imageCache.add(src); resolve(null)\<close>. An index
  that names no image created so far has no handler to run.
\<close>

definition onload :: "nat \<Rightarrow> gate \<Rightarrow> gate" where
  "onload i g =
     (if i < length (loads g)
      then g\<lparr>imageCache := insert (loads g ! i) (imageCache g),
              resolved := insert (Promise i) (resolved g)\<rparr>
      else g)"

definition emptyGate :: gate where
  "emptyGate = \<lparr>imageCache = {}, loads = [], resolved = {}\<rparr>"

text \<open>
  \<open>n\<close> calls for the same source with no \<^verbatim>\<open>onload\<close> in between, as when a suspended
  \<^verbatim>\<open>LazyImage\<close> is rendered again before its image has arrived.
\<close>

fun repeatedCalls :: "nat \<Rightarrow> string \<Rightarrow> gate \<Rightarrow> gate" where
  "repeatedCalls 0 src g = g"
| "repeatedCalls (Suc n) src g = repeatedCalls n src (snd (useSuspenseImage src g))"

subsection \<open>Data of the component and of its host\<close>

type_synonym nodeKey = string

type_synonym lexicalEditor = nat

text \<open>
  DOM elements, as far as the callbacks tell them apart: by identity
  (\<^verbatim>\<open>event.target === imageRef.current\<close>) and by \<^verbatim>\<open>tagName\<close>. The root element of an
  editor is the element that \<^verbatim>\<open>editor.focus()\<close> focuses.
\<close>

datatype element =
    ImgElement nat
  | ButtonElement nat
  | EditorRootElement lexicalEditor
  | OtherElement string nat

fun tagName :: "element \<Rightarrow> string" where
  "tagName (ImgElement _) = ''IMG''"
| "tagName (ButtonElement _) = ''BUTTON''"
| "tagName (EditorRootElement _) = ''DIV''"
| "tagName (OtherElement t _) = t"

text \<open>
  \<^verbatim>\<open>"inherit" | number\<close>. The number is stored and never computed with.
\<close>

datatype dimension = Inherit | Pixels int

record imageAttrs =
  nodeWidth :: dimension
  nodeHeight :: dimension
  nodeShowCaption :: bool

datatype node = ImageNode imageAttrs | OtherNode

text \<open>
  \<^verbatim>\<open>RangeSelection | NodeSelection | GridSelection | null\<close>. A selection carries the keys
  of the nodes that \<^verbatim>\<open>getNodes()\<close> returns; a node selection is a set of keys, kept as
  a list without repetition.
\<close>

datatype selection =
    RangeSelection "nodeKey list"
  | NodeSelection "nodeKey list"
  | GridSelection "nodeKey list"

text \<open>The payload of mouse and keyboard commands: the fields the callbacks read.\<close>

record event =
  target :: element
  shiftKey :: bool

text \<open>
  \<^verbatim>\<open>event.target\<close> is \<^verbatim>\<open>EventTarget | null\<close>: an event that was never dispatched on an
  element has none. \<^verbatim>\<open>onEscape\<close> compares the target with a ref that may be \<^verbatim>\<open>null\<close>
  as well, so its payload carries the target as an option.
\<close>

record keyboardEvent =
  keyTarget :: "element option"

datatype command =
    SELECTION_CHANGE_COMMAND
  | CLICK_COMMAND
  | RIGHT_CLICK_IMAGE_COMMAND
  | KEY_DELETE_COMMAND
  | KEY_BACKSPACE_COMMAND
  | KEY_ENTER_COMMAND
  | KEY_ESCAPE_COMMAND

text \<open>The callback of a pending \<^verbatim>\<open>setTimeout\<close>; the component has one.\<close>

datatype callback = SetIsResizingFalse

text \<open>A method call on a value that does not have the method.\<close>

datatype error = TypeError

text \<open>
  The props that the callbacks capture, and \<open>contextEditor\<close>, the editor of
  \<^verbatim>\<open>const [editor] = useLexicalComposerContext()\<close> in which the node lives.
\<close>

record props =
  nodeKey :: nodeKey
  showCaption :: bool
  caption :: lexicalEditor
  contextEditor :: lexicalEditor

text \<open>
  Everything a callback can read or change. The first group is the instance itself:
  the hook state \<^verbatim>\<open>isSelected\<close> (from \<^verbatim>\<open>useLexicalNodeSelection\<close>) and \<^verbatim>\<open>isResizing\<close>, and
  the refs. The second group is the host editor: its selection (\<^verbatim>\<open>$getSelection()\<close>),
  its nodes (\<^verbatim>\<open>$getNodeByKey\<close>), its root element (\<^verbatim>\<open>editor.getRootElement()\<close>) and
  the commands dispatched on it, and \<open>nestedSelection\<close>, the selections of the other
  editors, such as the caption editor nested in the node. The third group is the browser:
  \<^verbatim>\<open>document.activeElement\<close>, whether \<^verbatim>\<open>preventDefault()\<close> was called on the event in
  flight, the pending timers with their due times, and the clock in milliseconds.
\<close>

record state =
  isSelected :: bool
  isResizing :: bool
  imageRef :: "element option"
  buttonRef :: "element option"
  activeEditorRef :: "lexicalEditor option"
  editorSelection :: "selection option"
  nestedSelection :: "lexicalEditor \<Rightarrow> selection option"
  nodeMap :: "nodeKey \<rightharpoonup> node"
  rootElement :: "element option"
  dispatched :: "(command \<times> event) list"
  activeElement :: "element option"
  defaultPrevented :: bool
  timers :: "(nat \<times> callback) list"
  now :: nat

subsection \<open>The host editor and the browser\<close>

text \<open>
  The functions of this subsection belong to Lexical, to \<^verbatim>\<open>@lexical/react\<close> and to the
  DOM, none of which is part of the repository. Each is modelled by the contract
  that section 6 of the specification gives for it.
\<close>

definition getSelection :: "state \<Rightarrow> selection option" where
  \<comment> \<open>Modelled from the spec: \<^verbatim>\<open>$getSelection\<close> of Lexical, the selection query of the
      host editor.\<close>
  "getSelection s = editorSelection s"

fun isNodeSelection :: "selection option \<Rightarrow> bool" where
  \<comment> \<open>Modelled from the spec: \<^verbatim>\<open>$isNodeSelection\<close> of Lexical; the selection API
      distinguishes node-level selection from range selection.\<close>
  "isNodeSelection (Some (NodeSelection _)) = True"
| "isNodeSelection _ = False"

fun isRangeSelection :: "selection option \<Rightarrow> bool" where
  \<comment> \<open>Modelled from the spec: \<^verbatim>\<open>$isRangeSelection\<close> of Lexical.\<close>
  "isRangeSelection (Some (RangeSelection _)) = True"
| "isRangeSelection _ = False"

fun getNodes :: "selection option \<Rightarrow> nodeKey list" where
  \<comment> \<open>Modelled from the spec: \<^verbatim>\<open>getNodes()\<close> of a Lexical selection, the nodes it
      designates. The source calls it only behind \<^verbatim>\<open>$isNodeSelection\<close> or
      \<^verbatim>\<open>$isRangeSelection\<close>, never on \<^verbatim>\<open>null\<close>.\<close>
  "getNodes (Some (RangeSelection ks)) = ks"
| "getNodes (Some (NodeSelection ks)) = ks"
| "getNodes (Some (GridSelection ks)) = ks"
| "getNodes None = []"

definition setSelectionNull :: "state \<Rightarrow> state" where
  \<comment> \<open>Modelled from the spec: \<^verbatim>\<open>$setSelection(null)\<close> of Lexical.\<close>
  "setSelectionNull s = s\<lparr>editorSelection := None\<rparr>"

definition setSelectionNullIn :: "props \<Rightarrow> lexicalEditor \<Rightarrow> state \<Rightarrow> state" where
  \<comment> \<open>Modelled from the spec: \<^verbatim>\<open>$setSelection(null)\<close> of Lexical when the command is run by
      the editor \<open>running\<close>. The call acts on the editor that runs the command: on the
      editor of the component, or on another editor, whose selection it empties
      while that of the editor of the component stays.\<close>
  "setSelectionNullIn p running s =
     (if running = contextEditor p
      then setSelectionNull s
      else s\<lparr>nestedSelection := (nestedSelection s)(running := None)\<rparr>)"

definition getNodeByKey :: "state \<Rightarrow> nodeKey \<Rightarrow> node option" where
  \<comment> \<open>Modelled from the spec: \<^verbatim>\<open>$getNodeByKey\<close> of Lexical, which resolves a key to its
      current node and returns \<^verbatim>\<open>null\<close> if the node was deleted.\<close>
  "getNodeByKey s k = nodeMap s k"

fun isImageNode :: "node option \<Rightarrow> bool" where
  \<comment> \<open>Modelled from the spec: \<^verbatim>\<open>$isImageNode\<close> of \<^verbatim>\<open>./ImageNode\<close>, the type guard of
      the image node class.\<close>
  "isImageNode (Some (ImageNode _)) = True"
| "isImageNode _ = False"

definition remove :: "nodeKey \<Rightarrow> state \<Rightarrow> error + state" where
  \<comment> \<open>Modelled from the spec: \<^verbatim>\<open>node.remove()\<close> for \<^verbatim>\<open>node = $getNodeByKey(k)\<close>; it
      removes the node from the document. On \<^verbatim>\<open>null\<close> the call is a TypeError.\<close>
  "remove k s =
     (case getNodeByKey s k of
        None \<Rightarrow> Inl TypeError
      | Some _ \<Rightarrow> Inr (s\<lparr>nodeMap := (nodeMap s)(k := None)\<rparr>))"

definition nodeSetShowCaption :: "nodeKey \<Rightarrow> bool \<Rightarrow> state \<Rightarrow> error + state" where
  \<comment> \<open>Modelled from the spec: \<^verbatim>\<open>node.setShowCaption(b)\<close> of \<^verbatim>\<open>./ImageNode\<close> for
      \<^verbatim>\<open>node = $getNodeByKey(k)\<close>, the caption-visibility operation of the mutation
      contract. Only an image node has the method.\<close>
  "nodeSetShowCaption k b s =
     (case getNodeByKey s k of
        Some (ImageNode a) \<Rightarrow>
          Inr (s\<lparr>nodeMap := (nodeMap s)(k \<mapsto> ImageNode (a\<lparr>nodeShowCaption := b\<rparr>))\<rparr>)
      | _ \<Rightarrow> Inl TypeError)"

definition setWidthAndHeight ::
  "nodeKey \<Rightarrow> dimension \<Rightarrow> dimension \<Rightarrow> state \<Rightarrow> error + state" where
  \<comment> \<open>Modelled from the spec: \<^verbatim>\<open>node.setWidthAndHeight(w, h)\<close> of \<^verbatim>\<open>./ImageNode\<close> for
      \<^verbatim>\<open>node = $getNodeByKey(k)\<close>, the dimension operation of the mutation contract.
      Only an image node has the method.\<close>
  "setWidthAndHeight k w h s =
     (case getNodeByKey s k of
        Some (ImageNode a) \<Rightarrow>
          Inr (s\<lparr>nodeMap := (nodeMap s)(k \<mapsto> ImageNode (a\<lparr>nodeWidth := w, nodeHeight := h\<rparr>))\<rparr>)
      | _ \<Rightarrow> Inl TypeError)"

definition setSelected :: "props \<Rightarrow> bool \<Rightarrow> state \<Rightarrow> state" where
  \<comment> \<open>Modelled from the spec: the setter returned by \<^verbatim>\<open>useLexicalNodeSelection(nodeKey)\<close>
      of \<^verbatim>\<open>@lexical/react\<close>. It works on the node-level selection of the editor,
      installing an empty one first when the current selection is not node-level,
      and adds the key to it or deletes the key from it.\<close>
  "setSelected p selected s =
     (let ks = (case getSelection s of Some (NodeSelection ks) \<Rightarrow> ks | _ \<Rightarrow> [])
      in s\<lparr>editorSelection :=
             Some (NodeSelection
                     (if selected
                      then (if nodeKey p \<in> set ks then ks else ks @ [nodeKey p])
                      else removeAll (nodeKey p) ks))\<rparr>)"

definition clearSelection :: "state \<Rightarrow> state" where
  \<comment> \<open>Modelled from the spec: the clear function returned by
      \<^verbatim>\<open>useLexicalNodeSelection\<close> of \<^verbatim>\<open>@lexical/react\<close>; it empties the node-level
      selection and leaves any other kind of selection alone.\<close>
  "clearSelection s =
     (case getSelection s of
        Some (NodeSelection _) \<Rightarrow> s\<lparr>editorSelection := Some (NodeSelection [])\<rparr>
      | _ \<Rightarrow> s)"

definition preventDefault :: "state \<Rightarrow> state" where
  \<comment> \<open>Modelled from the spec: \<^verbatim>\<open>event.preventDefault()\<close> of the DOM.\<close>
  "preventDefault s = s\<lparr>defaultPrevented := True\<rparr>"

definition focus :: "element \<Rightarrow> state \<Rightarrow> state" where
  \<comment> \<open>Modelled from the spec: \<^verbatim>\<open>element.focus()\<close> of the DOM.\<close>
  "focus e s = s\<lparr>activeElement := Some e\<rparr>"

definition editorFocus :: "lexicalEditor \<Rightarrow> state \<Rightarrow> state" where
  \<comment> \<open>Modelled from the spec: \<^verbatim>\<open>editor.focus()\<close> of Lexical, which gives input focus to
      the editing surface of that editor.\<close>
  "editorFocus e s = focus (EditorRootElement e) s"

definition getRootElement :: "state \<Rightarrow> element option" where
  \<comment> \<open>Modelled from the spec: \<^verbatim>\<open>editor.getRootElement()\<close> of Lexical, for the editor of
      \<^verbatim>\<open>useLexicalComposerContext()\<close>.\<close>
  "getRootElement s = rootElement s"

definition setTimeout :: "callback \<Rightarrow> nat \<Rightarrow> state \<Rightarrow> state" where
  \<comment> \<open>Modelled from the spec: \<^verbatim>\<open>setTimeout(cb, delay)\<close> of the browser; the callback
      becomes due \<open>delay\<close> milliseconds from now.\<close>
  "setTimeout cb delay s = s\<lparr>timers := timers s @ [(now s + delay, cb)]\<rparr>"

subsection \<open>The callbacks of the component\<close>

text \<open>Lines 130 to 143.\<close>

definition onDelete :: "props \<Rightarrow> event \<Rightarrow> state \<Rightarrow> error + bool \<times> state" where
  "onDelete p payload s =
     (if isSelected s \<and> isNodeSelection (getSelection s)
      then (let s1 = preventDefault s;
                node = getNodeByKey s1 (nodeKey p)
            in if isImageNode node
               then (case remove (nodeKey p) s1 of
                       Inl e \<Rightarrow> Inl e
                     | Inr s2 \<Rightarrow> Inr (False, s2))
               else Inr (False, s1))
      else Inr (False, s))"

text \<open>Lines 145 to 172.\<close>

definition onEnter :: "props \<Rightarrow> event \<Rightarrow> state \<Rightarrow> bool \<times> state" where
  "onEnter p ev s =
     (let latestSelection = getSelection s;
          buttonElem = buttonRef s
      in if isSelected s \<and> isNodeSelection latestSelection
            \<and> length (getNodes latestSelection) = 1
         then (if showCaption p
               then (True, editorFocus (caption p) (preventDefault (setSelectionNull s)))
               else (case buttonElem of
                       Some b \<Rightarrow>
                         if Some b \<noteq> activeElement s
                         then (True, focus b (preventDefault s))
                         else (False, s)
                     | None \<Rightarrow> (False, s)))
         else (False, s))"

text \<open>
  Lines 174 to 193. \<open>running\<close> is the editor that runs the command, the second
  argument of a command listener, which the source does not name: an Escape typed
  in the caption editor is run by the caption editor and reaches this handler of
  the parent. \<^verbatim>\<open>$setSelection(null)\<close> stands outside \<^verbatim>\<open>editor.update\<close> and acts on the
  running editor; \<^verbatim>\<open>setSelected(true)\<close> and the focus act on the editor of the
  component. \<^verbatim>\<open>buttonRef.current === event.target\<close> compares two values that may both be
  \<^verbatim>\<open>null\<close>.
\<close>

definition onEscape ::
  "props \<Rightarrow> lexicalEditor \<Rightarrow> keyboardEvent \<Rightarrow> state \<Rightarrow> bool \<times> state" where
  "onEscape p running ev s =
     (if activeEditorRef s = Some (caption p) \<or> buttonRef s = keyTarget ev
      then (let s1 = setSelectionNullIn p running s;
                s2 = setSelected p True s1;
                parentRootElement = getRootElement s2
            in (True, (case parentRootElement of
                         Some r \<Rightarrow> focus r s2
                       | None \<Rightarrow> s2)))
      else (False, s))"

text \<open>Lines 195 to 215.\<close>

definition onClick :: "props \<Rightarrow> event \<Rightarrow> state \<Rightarrow> bool \<times> state" where
  "onClick p payload s =
     (if isResizing s then (True, s)
      else if Some (target payload) = imageRef s
      then (if shiftKey payload
            then (True, setSelected p (\<not> isSelected s) s)
            else (True, setSelected p True (clearSelection s)))
      else (False, s))"

text \<open>
  Lines 237 to 280: the handlers that the effect registers, all at
  \<^verbatim>\<open>COMMAND_PRIORITY_LOW\<close>, in the order of \<^verbatim>\<open>mergeRegister\<close>. A handler receives the
  payload and the editor that dispatched. An event that travels over the bus was
  dispatched on an element and has it as target.
\<close>

type_synonym handler = "event \<Rightarrow> lexicalEditor \<Rightarrow> state \<Rightarrow> error + bool \<times> state"

definition registrations :: "props \<Rightarrow> (command \<times> handler) list" where
  "registrations p =
     [(SELECTION_CHANGE_COMMAND,
         \<lambda>_ activeEditor s. Inr (False, s\<lparr>activeEditorRef := Some activeEditor\<rparr>)),
      (CLICK_COMMAND, \<lambda>ev _ s. Inr (onClick p ev s)),
      (RIGHT_CLICK_IMAGE_COMMAND, \<lambda>ev _ s. Inr (onClick p ev s)),
      (KEY_DELETE_COMMAND, \<lambda>ev _ s. onDelete p ev s),
      (KEY_BACKSPACE_COMMAND, \<lambda>ev _ s. onDelete p ev s),
      (KEY_ENTER_COMMAND, \<lambda>ev _ s. Inr (onEnter p ev s)),
      (KEY_ESCAPE_COMMAND,
         \<lambda>ev running s. Inr (onEscape p running \<lparr>keyTarget = Some (target ev)\<rparr> s))]"

fun triggerCommandListeners ::
  "handler list \<Rightarrow> event \<Rightarrow> lexicalEditor \<Rightarrow> state \<Rightarrow> error + bool \<times> state" where
  \<comment> \<open>Modelled from the spec: the command bus of Lexical. Dispatch goes through the
      handlers in order and stops at the first one that reports the event handled.\<close>
  "triggerCommandListeners [] ev e s = Inr (False, s)"
| "triggerCommandListeners (h # hs) ev e s =
     (case h ev e s of
        Inl err \<Rightarrow> Inl err
      | Inr (handled, s') \<Rightarrow>
          if handled then Inr (True, s') else triggerCommandListeners hs ev e s')"

definition listeners :: "props \<Rightarrow> command \<Rightarrow> handler list" where
  "listeners p c = map snd (filter (\<lambda>r. fst r = c) (registrations p))"

definition dispatchCommand ::
  "props \<Rightarrow> lexicalEditor \<Rightarrow> command \<Rightarrow> event \<Rightarrow> state \<Rightarrow> error + bool \<times> state" where
  \<comment> \<open>Modelled from the spec: \<^verbatim>\<open>editor.dispatchCommand\<close> of Lexical, restricted to the
      handlers of this instance. The dispatch is recorded.\<close>
  "dispatchCommand p e c ev s =
     triggerCommandListeners (listeners p c) ev e (s\<lparr>dispatched := dispatched s @ [(c, ev)]\<rparr>)"

text \<open>
  Lines 217 to 235, the \<^verbatim>\<open>contextmenu\<close> listener on the root element. The editor that
  dispatches is the one of \<^verbatim>\<open>useLexicalComposerContext()\<close>, passed as \<open>editor\<close>.
\<close>

definition onRightClick :: "props \<Rightarrow> lexicalEditor \<Rightarrow> event \<Rightarrow> state \<Rightarrow> error + state" where
  "onRightClick p editor ev s =
     (let latestSelection = getSelection s;
          domElement = target ev
      in if tagName domElement = ''IMG'' \<and> isRangeSelection latestSelection
            \<and> length (getNodes latestSelection) = 1
         then (case dispatchCommand p editor RIGHT_CLICK_IMAGE_COMMAND ev s of
                 Inl e \<Rightarrow> Inl e
               | Inr (_, s') \<Rightarrow> Inr s')
         else Inr s)"

text \<open>Lines 303 to 310.\<close>

definition setShowCaption :: "props \<Rightarrow> state \<Rightarrow> error + state" where
  "setShowCaption p s =
     (let node = getNodeByKey s (nodeKey p)
      in if isImageNode node then nodeSetShowCaption (nodeKey p) True s else Inr s)"

text \<open>Lines 312 to 327.\<close>

definition onResizeEnd :: "props \<Rightarrow> dimension \<Rightarrow> dimension \<Rightarrow> state \<Rightarrow> error + state" where
  "onResizeEnd p nextWidth nextHeight s =
     (let s1 = setTimeout SetIsResizingFalse 200 s;
          node = getNodeByKey s1 (nodeKey p)
      in if isImageNode node
         then setWidthAndHeight (nodeKey p) nextWidth nextHeight s1
         else Inr s1)"

text \<open>Lines 329 to 331.\<close>

definition onResizeStart :: "state \<Rightarrow> state" where
  "onResizeStart s = s\<lparr>isResizing := True\<rparr>"

subsection \<open>Timers\<close>

fun runCallback :: "callback \<Rightarrow> state \<Rightarrow> state" where
  "runCallback SetIsResizingFalse s = s\<lparr>isResizing := False\<rparr>"

definition advance :: "nat \<Rightarrow> state \<Rightarrow> state" where
  \<comment> \<open>Modelled from the spec: the timer queue of the browser. After \<open>d\<close> milliseconds
      every timer that has become due has run, in the order of registration, and
      the others are still pending.\<close>
  "advance d s =
     (let t = now s + d;
          due = filter (\<lambda>tm. fst tm \<le> t) (timers s);
          pending = filter (\<lambda>tm. \<not> fst tm \<le> t) (timers s)
      in fold (\<lambda>tm. runCallback (snd tm)) due (s\<lparr>now := t, timers := pending\<rparr>))"

subsection \<open>Vocabulary of the properties\<close>

text \<open>A key is selected at node level when the node-level selection holds it.\<close>

definition nodeSelected :: "state \<Rightarrow> nodeKey \<Rightarrow> bool" where
  "nodeSelected s k =
     (case getSelection s of Some (NodeSelection ks) \<Rightarrow> k \<in> set ks | _ \<Rightarrow> False)"

text \<open>
  A mounted instance for node \<open>''7''\<close>: selected at node level, its image and its
  options button rendered, focus on the root element of the parent editor \<open>0\<close>, the
  caption editor being editor \<open>1\<close>, without a selection of its own.
\<close>

definition exampleProps :: props where
  "exampleProps = \<lparr>nodeKey = ''7'', showCaption = True, caption = 1, contextEditor = 0\<rparr>"

definition exampleState :: state where
  "exampleState =
     \<lparr>isSelected = True, isResizing = False,
      imageRef = Some (ImgElement 0), buttonRef = Some (ButtonElement 0),
      activeEditorRef = Some 0,
      editorSelection = Some (NodeSelection [''7'']),
      nestedSelection = (\<lambda>_. None),
      nodeMap = [''7'' \<mapsto> ImageNode \<lparr>nodeWidth = Inherit, nodeHeight = Inherit,
                                        nodeShowCaption = True\<rparr>],
      rootElement = Some (EditorRootElement 0),
      dispatched = [],
      activeElement = Some (EditorRootElement 0),
      defaultPrevented = False,
      timers = [], now = 0\<rparr>"

text \<open>
  Two drags in a row: the first ends at once, the second starts 50 ms later and
  ends after another 100 ms, 150 ms after the first one ended.
\<close>

definition doubleDrag :: "error + state" where
  "doubleDrag =
     (case onResizeEnd exampleProps (Pixels 300) (Pixels 200) (onResizeStart exampleState) of
        Inl e \<Rightarrow> Inl e
      | Inr s \<Rightarrow>
          onResizeEnd exampleProps (Pixels 320) (Pixels 210)
            (advance 100 (onResizeStart (advance 50 s))))"

text \<open>
  Two drags again: the first ends at once, the second starts 100 ms later and lasts
  400 ms, beyond the 200 ms of the first reset.
\<close>

definition lateSecondDrag :: "error + state" where
  "lateSecondDrag =
     (case onResizeEnd exampleProps (Pixels 300) (Pixels 200) (onResizeStart exampleState) of
        Inl e \<Rightarrow> Inl e
      | Inr s \<Rightarrow>
          onResizeEnd exampleProps (Pixels 320) (Pixels 210)
            (advance 400 (onResizeStart (advance 100 s))))"

section \<open>Facts about the host model\<close>

lemma onClick_dispatched: "dispatched (snd (onClick p ev s)) = dispatched s"
  by (simp add: onClick_def setSelected_def clearSelection_def Let_def
      split: option.splits selection.splits)

lemma listeners_click:
  "listeners p CLICK_COMMAND = [\<lambda>ev _ s. Inr (onClick p ev s)]"
  "listeners p RIGHT_CLICK_IMAGE_COMMAND = [\<lambda>ev _ s. Inr (onClick p ev s)]"
  by (simp_all add: listeners_def registrations_def)

lemma listeners_delete:
  "listeners p KEY_DELETE_COMMAND = [\<lambda>ev _ s. onDelete p ev s]"
  "listeners p KEY_BACKSPACE_COMMAND = [\<lambda>ev _ s. onDelete p ev s]"
  by (simp_all add: listeners_def registrations_def)

lemma dispatch_right_click:
  "dispatchCommand p e RIGHT_CLICK_IMAGE_COMMAND ev s =
     Inr (onClick p ev (s\<lparr>dispatched := dispatched s @ [(RIGHT_CLICK_IMAGE_COMMAND, ev)]\<rparr>))"
  by (cases "onClick p ev (s\<lparr>dispatched := dispatched s @ [(RIGHT_CLICK_IMAGE_COMMAND, ev)]\<rparr>)")
     (simp add: dispatchCommand_def listeners_click)

lemma onRightClick_eq:
  "onRightClick p e ev s =
     (if tagName (target ev) = ''IMG'' \<and> isRangeSelection (getSelection s)
         \<and> length (getNodes (getSelection s)) = 1
      then Inr (snd (onClick p ev
                  (s\<lparr>dispatched := dispatched s @ [(RIGHT_CLICK_IMAGE_COMMAND, ev)]\<rparr>)))
      else Inr s)"
  by (simp add: onRightClick_def dispatch_right_click Let_def split: prod.splits)

text \<open>
  The guard \<^verbatim>\<open>$isImageNode(node)\<close> keeps the method calls of the three mutating operations
  away from \<^verbatim>\<open>null\<close> and from nodes of another class: none of them ends in an error.
\<close>

lemma onDelete_returns: "\<exists>s'. onDelete p ev s = Inr (False, s')"
  by (cases "nodeMap s (nodeKey p)" rule: isImageNode.cases)
     (simp_all add: onDelete_def remove_def getNodeByKey_def preventDefault_def Let_def)

lemma setShowCaption_returns: "\<exists>s'. setShowCaption p s = Inr s'"
  by (cases "nodeMap s (nodeKey p)" rule: isImageNode.cases)
     (simp_all add: setShowCaption_def nodeSetShowCaption_def getNodeByKey_def Let_def)

lemma onResizeEnd_Inr:
  "onResizeEnd p w h s =
     Inr ((setTimeout SetIsResizingFalse 200 s)
            \<lparr>nodeMap :=
               (case nodeMap s (nodeKey p) of
                  Some (ImageNode a) \<Rightarrow>
                    (nodeMap s)(nodeKey p \<mapsto> ImageNode (a\<lparr>nodeWidth := w, nodeHeight := h\<rparr>))
                | _ \<Rightarrow> nodeMap s)\<rparr>)"
  by (cases "nodeMap s (nodeKey p)" rule: isImageNode.cases)
     (simp_all add: onResizeEnd_def setWidthAndHeight_def getNodeByKey_def setTimeout_def Let_def)

lemma advance_single:
  "timers s = [(t, SetIsResizingFalse)] \<Longrightarrow>
   isResizing (advance d s) = (isResizing s \<and> \<not> t \<le> now s + d)"
  by (simp add: advance_def Let_def)

section \<open>The load gate\<close>

lemma repeatedCalls_hit: "src \<in> imageCache g \<Longrightarrow> repeatedCalls n src g = g"
  by (induction n) (simp_all add: useSuspenseImage_def)

lemma repeatedCalls_miss:
  "src \<notin> imageCache g \<Longrightarrow>
   loads (repeatedCalls n src g) = loads g @ replicate n src \<and>
   imageCache (repeatedCalls n src g) = imageCache g"
proof (induction n arbitrary: g)
  case 0
  show ?case by simp
next
  case (Suc n)
  let ?g' = "g\<lparr>loads := loads g @ [src]\<rparr>"
  from Suc.prems have step: "snd (useSuspenseImage src g) = ?g'"
    by (simp add: useSuspenseImage_def)
  from Suc.prems have "src \<notin> imageCache ?g'"
    by simp
  from Suc.IH [OF this] show ?case
    by (simp add: step replicate_app_Cons_same)
qed

text \<open>
  Claim C1, as amended. The claim says that a second call of \<^verbatim>\<open>useSuspenseImage\<close> for a
  source whose load has not completed starts no second load. The gate keeps no
  record of pending loads: \<^verbatim>\<open>imageCache\<close> holds completed sources only. So every call
  for a source that is not in \<^verbatim>\<open>imageCache\<close> creates one \<^verbatim>\<open>Image\<close>, starts one load
  and throws a promise of its own, whether or not an earlier load of the same
  source is pending, and \<open>n\<close> calls before any completion start \<open>n\<close> loads; a call for
  a source in \<^verbatim>\<open>imageCache\<close> returns and starts nothing; no call changes
  \<^verbatim>\<open>imageCache\<close>; and once \<^verbatim>\<open>onload\<close> of some load of the source has run, a call for
  that source returns without starting a load.
\<close>

theorem useSuspenseImage_starts_load_on_every_miss:
  "(src \<notin> imageCache g \<longrightarrow>
      useSuspenseImage src g
        = (Thrown (Promise (length (loads g))), g\<lparr>loads := loads g @ [src]\<rparr>) \<and>
      loads (repeatedCalls n src g) = loads g @ replicate n src) \<and>
   (src \<in> imageCache g \<longrightarrow>
      useSuspenseImage src g = (Returned, g) \<and> repeatedCalls n src g = g) \<and>
   imageCache (repeatedCalls n src g) = imageCache g \<and>
   (i < length (loads g) \<and> loads g ! i = src \<longrightarrow>
      useSuspenseImage src (onload i g) = (Returned, onload i g))"
proof (cases "src \<in> imageCache g")
  case True
  then show ?thesis
    by (simp add: repeatedCalls_hit useSuspenseImage_def onload_def)
next
  case False
  then show ?thesis
    using repeatedCalls_miss [OF False, of n]
    by (simp add: useSuspenseImage_def onload_def)
qed

text \<open>
  The first call on the empty gate starts the load with index 0, three calls in a row
  start three loads, and after \<^verbatim>\<open>onload\<close> of the first load a call for the same source
  returns.
\<close>

theorem useSuspenseImage_starts_load_on_every_miss_witness:
  "''a.png'' \<notin> imageCache emptyGate \<and>
   useSuspenseImage ''a.png'' emptyGate
     = (Thrown (Promise 0), emptyGate\<lparr>loads := [''a.png'']\<rparr>) \<and>
   loads (repeatedCalls 3 ''a.png'' emptyGate) = [''a.png'', ''a.png'', ''a.png''] \<and>
   0 < length (loads (emptyGate\<lparr>loads := [''a.png'']\<rparr>)) \<and>
   loads (emptyGate\<lparr>loads := [''a.png'']\<rparr>) ! 0 = ''a.png'' \<and>
   fst (useSuspenseImage ''a.png'' (onload 0 (emptyGate\<lparr>loads := [''a.png'']\<rparr>))) = Returned"
proof -
  let ?g = "emptyGate\<lparr>loads := [''a.png'']\<rparr>"
  have a: "''a.png'' \<notin> imageCache emptyGate" and b: "loads emptyGate = []"
    by (simp_all add: emptyGate_def)
  have c: "0 < length (loads ?g) \<and> loads ?g ! 0 = ''a.png''"
    by simp
  have r: "replicate 3 ''a.png'' = [''a.png'', ''a.png'', ''a.png'']"
    by (simp add: numeral_3_eq_3)
  from useSuspenseImage_starts_load_on_every_miss [of "''a.png''" emptyGate 3 0] a
  have "useSuspenseImage ''a.png'' emptyGate = (Thrown (Promise 0), ?g)"
    and "loads (repeatedCalls 3 ''a.png'' emptyGate) = [''a.png'', ''a.png'', ''a.png'']"
    by (simp_all add: b r)
  moreover from useSuspenseImage_starts_load_on_every_miss [of "''a.png''" ?g 0 0] c
  have "useSuspenseImage ''a.png'' (onload 0 ?g) = (Returned, onload 0 ?g)"
    by blast
  ultimately show ?thesis using a c by simp
qed

text \<open>
  Two calls for \<^verbatim>\<open>a.png\<close> on the empty gate, with no \<^verbatim>\<open>onload\<close> in between: the source
  is still not in \<^verbatim>\<open>imageCache\<close> after the first call, the second call throws a second
  promise, and two loads of \<^verbatim>\<open>a.png\<close> have been started.
\<close>

theorem useSuspenseImage_second_call_second_load:
  "''a.png'' \<notin> imageCache (snd (useSuspenseImage ''a.png'' emptyGate)) \<and>
   fst (useSuspenseImage ''a.png'' (snd (useSuspenseImage ''a.png'' emptyGate)))
     = Thrown (Promise 1) \<and>
   loads (snd (useSuspenseImage ''a.png'' (snd (useSuspenseImage ''a.png'' emptyGate))))
     = [''a.png'', ''a.png'']"
  by (simp add: useSuspenseImage_def emptyGate_def)

section \<open>Clicks\<close>

text \<open>
  Claim C2. A click on the image of this node that arrives while the node is not
  resizing is reported as handled. Without the shift key the handler calls
  \<^verbatim>\<open>clearSelection()\<close> and then \<^verbatim>\<open>setSelected(true)\<close>, after which the selection is the
  node-level selection of this node alone. With the shift key this node is selected
  afterwards exactly if \<^verbatim>\<open>isSelected\<close> was false, and every other key is in the
  node-level selection exactly if it was before.
\<close>

theorem onClick_selects_or_toggles:
  assumes "\<not> isResizing s" and "imageRef s = Some (target ev)"
  shows "fst (onClick p ev s) = True \<and>
    (\<not> shiftKey ev \<longrightarrow>
       snd (onClick p ev s) = setSelected p True (clearSelection s) \<and>
       getSelection (snd (onClick p ev s)) = Some (NodeSelection [nodeKey p])) \<and>
    (shiftKey ev \<longrightarrow>
       nodeSelected (snd (onClick p ev s)) (nodeKey p) = (\<not> isSelected s) \<and>
       (\<forall>k. k \<noteq> nodeKey p \<longrightarrow>
            nodeSelected (snd (onClick p ev s)) k = nodeSelected s k))"
  using assms
  by (auto simp: onClick_def setSelected_def clearSelection_def getSelection_def
      nodeSelected_def split: option.splits selection.splits)

text \<open>
  While nodes \<open>''3''\<close> and \<open>''7''\<close> are both selected, a plain click on the image
  leaves \<open>''7''\<close> alone selected, and a shift-click deselects \<open>''7''\<close> and keeps \<open>''3''\<close>.
\<close>

theorem onClick_selects_or_toggles_witness:
  "\<not> isResizing (exampleState\<lparr>editorSelection := Some (NodeSelection [''3'', ''7''])\<rparr>) \<and>
   imageRef (exampleState\<lparr>editorSelection := Some (NodeSelection [''3'', ''7''])\<rparr>)
     = Some (ImgElement 0) \<and>
   fst (onClick exampleProps \<lparr>target = ImgElement 0, shiftKey = False\<rparr>
          (exampleState\<lparr>editorSelection := Some (NodeSelection [''3'', ''7''])\<rparr>)) = True \<and>
   getSelection
     (snd (onClick exampleProps \<lparr>target = ImgElement 0, shiftKey = False\<rparr>
             (exampleState\<lparr>editorSelection := Some (NodeSelection [''3'', ''7''])\<rparr>)))
     = Some (NodeSelection [''7'']) \<and>
   \<not> nodeSelected
       (snd (onClick exampleProps \<lparr>target = ImgElement 0, shiftKey = True\<rparr>
               (exampleState\<lparr>editorSelection := Some (NodeSelection [''3'', ''7''])\<rparr>))) ''7'' \<and>
   nodeSelected
     (snd (onClick exampleProps \<lparr>target = ImgElement 0, shiftKey = True\<rparr>
             (exampleState\<lparr>editorSelection := Some (NodeSelection [''3'', ''7''])\<rparr>))) ''3''"
proof -
  let ?s = "exampleState\<lparr>editorSelection := Some (NodeSelection [''3'', ''7''])\<rparr>"
  let ?ev = "\<lparr>target = ImgElement 0, shiftKey = False\<rparr>"
  let ?evs = "\<lparr>target = ImgElement 0, shiftKey = True\<rparr>"
  have a: "\<not> isResizing ?s" and b: "imageRef ?s = Some (target ?ev)"
    and b': "imageRef ?s = Some (target ?evs)"
    and c: "isSelected ?s" and d: "nodeSelected ?s ''3''"
    by (simp_all add: exampleState_def nodeSelected_def getSelection_def)
  have k: "nodeKey exampleProps = ''7''"
    by (simp add: exampleProps_def)
  have plain: "\<not> shiftKey ?ev" and shift: "shiftKey ?evs" and other: "''3'' \<noteq> nodeKey exampleProps"
    by (simp_all add: k)
  from onClick_selects_or_toggles [OF a b, of exampleProps] plain
  have "fst (onClick exampleProps ?ev ?s) = True \<and>
        getSelection (snd (onClick exampleProps ?ev ?s))
          = Some (NodeSelection [nodeKey exampleProps])"
    by blast
  moreover from onClick_selects_or_toggles [OF a b', of exampleProps] shift c d other
  have "\<not> nodeSelected (snd (onClick exampleProps ?evs ?s)) (nodeKey exampleProps) \<and>
        nodeSelected (snd (onClick exampleProps ?evs ?s)) ''3''"
    by blast
  ultimately show ?thesis using a b by (simp add: k)
qed

text \<open>
  What the timer does for one drag. A click that arrives while \<^verbatim>\<open>isResizing\<close> holds is
  reported as handled and changes nothing. When a drag ends while the node is resizing
  and no reset of an earlier \<^verbatim>\<open>onResizeEnd\<close> is pending, \<^verbatim>\<open>onResizeEnd\<close> returns, the node
  is resizing during the 200 ms that follow, a click in that time is consumed without
  effect, and from 200 ms on the node is no longer resizing.
\<close>

lemma click_consumed_during_single_drag:
  assumes "isResizing s"
  shows "onClick p ev s = (True, s) \<and>
    (timers s = [] \<longrightarrow>
       (\<exists>s1. onResizeEnd p w h s = Inr s1 \<and>
          (\<forall>d < 200. isResizing (advance d s1) \<and>
                       onClick p ev (advance d s1) = (True, advance d s1)) \<and>
          (\<forall>d \<ge> 200. \<not> isResizing (advance d s1))))"
proof -
  have click: "onClick p ev s' = (True, s')" if "isResizing s'" for s'
    using that by (simp add: onClick_def)
  have "\<exists>s1. onResizeEnd p w h s = Inr s1 \<and>
          (\<forall>d < 200. isResizing (advance d s1) \<and>
                       onClick p ev (advance d s1) = (True, advance d s1)) \<and>
          (\<forall>d \<ge> 200. \<not> isResizing (advance d s1))"
    if t: "timers s = []"
  proof -
    obtain s1 where s1: "onResizeEnd p w h s = Inr s1"
      and tm: "timers s1 = [(now s + 200, SetIsResizingFalse)]"
      and nw: "now s1 = now s" and rz: "isResizing s1 = isResizing s"
      using t by (simp add: onResizeEnd_Inr setTimeout_def)
    have r: "isResizing (advance d s1) = (d < 200)" for d
      using advance_single [OF tm, of d] assms by (auto simp: nw rz)
    show ?thesis using r click by (simp add: s1)
  qed
  with click [OF assms] show ?thesis by blast
qed

text \<open>
  Claim C3. The claim says that a click is consumed while the node is resizing, and
  that after \<^verbatim>\<open>onResizeEnd\<close> the resizing state is left only after the delay of 200 ms,
  so that the click that trails the drag is ignored as well; the comment at line 316,
  \<^verbatim>\<open>Delay hiding the resize bars for click case\<close>, says the same. The code misses the
  case of a reset that is still pending from an earlier drag: \<^verbatim>\<open>onResizeEnd\<close> never
  clears the timer it set before, and \<^verbatim>\<open>onResizeStart\<close> does not either.

  In \<open>doubleDrag\<close> the second drag ends at 150 ms with the node resizing; 50 ms later
  the reset scheduled by the first drag has run, the node is no longer resizing, and
  a shift-click on the image changes the selection. In \<open>lateSecondDrag\<close> the reset of
  the first drag runs while the second drag is under way: when that drag ends at
  500 ms the node is not resizing, and a shift-click on the image at that moment
  changes the selection.
\<close>

theorem grace_period_cut_short_by_earlier_timer:
  "\<not> isl doubleDrag \<and> now (projr doubleDrag) = 150 \<and> isResizing (projr doubleDrag) \<and>
   \<not> isResizing (advance 50 (projr doubleDrag)) \<and>
   getSelection (snd (onClick exampleProps \<lparr>target = ImgElement 0, shiftKey = True\<rparr>
                        (advance 50 (projr doubleDrag)))) = Some (NodeSelection []) \<and>
   \<not> isl lateSecondDrag \<and> now (projr lateSecondDrag) = 500 \<and>
   \<not> isResizing (projr lateSecondDrag) \<and>
   getSelection (snd (onClick exampleProps \<lparr>target = ImgElement 0, shiftKey = True\<rparr>
                        (projr lateSecondDrag))) = Some (NodeSelection [])"
  by (simp add: doubleDrag_def lateSecondDrag_def onResizeEnd_Inr onResizeStart_def
      advance_def setTimeout_def exampleProps_def exampleState_def Let_def onClick_def
      setSelected_def getSelection_def)

section \<open>Keyboard commands\<close>

text \<open>
  Claim C4. When Enter arrives while this node is selected, the selection is a
  node-level selection of exactly one node and \<^verbatim>\<open>showCaption\<close> is true, the handler sets
  the selection of the document to \<^verbatim>\<open>null\<close>, prevents the default, gives focus to the
  caption editor and reports the event as handled.
\<close>

theorem onEnter_moves_focus_into_caption:
  assumes "isSelected s" and "isNodeSelection (getSelection s)"
    and "length (getNodes (getSelection s)) = 1" and "showCaption p"
  shows "fst (onEnter p ev s) = True \<and>
         getSelection (snd (onEnter p ev s)) = None \<and>
         activeElement (snd (onEnter p ev s)) = Some (EditorRootElement (caption p)) \<and>
         defaultPrevented (snd (onEnter p ev s))"
  using assms
  by (simp add: onEnter_def getSelection_def setSelectionNull_def preventDefault_def
      editorFocus_def focus_def)

text \<open>Enter on the example instance, whose caption editor is editor \<open>1\<close>.\<close>

theorem onEnter_moves_focus_into_caption_witness:
  "isSelected exampleState \<and> isNodeSelection (getSelection exampleState) \<and>
   length (getNodes (getSelection exampleState)) = 1 \<and> showCaption exampleProps \<and>
   fst (onEnter exampleProps \<lparr>target = EditorRootElement 0, shiftKey = False\<rparr> exampleState)
     = True \<and>
   getSelection
     (snd (onEnter exampleProps \<lparr>target = EditorRootElement 0, shiftKey = False\<rparr> exampleState))
     = None \<and>
   activeElement
     (snd (onEnter exampleProps \<lparr>target = EditorRootElement 0, shiftKey = False\<rparr> exampleState))
     = Some (EditorRootElement 1)"
proof -
  have a: "isSelected exampleState" and b: "isNodeSelection (getSelection exampleState)"
    and c: "length (getNodes (getSelection exampleState)) = 1"
    by (simp_all add: exampleState_def getSelection_def)
  have d: "showCaption exampleProps" and e: "caption exampleProps = 1"
    by (simp_all add: exampleProps_def)
  from onEnter_moves_focus_into_caption
         [OF a b c d, of "\<lparr>target = EditorRootElement 0, shiftKey = False\<rparr>"]
  show ?thesis using a b c d by (simp add: e)
qed

text \<open>
  Claim C5, as amended. When Enter arrives while this node is selected, the selection
  is a node-level selection of exactly one node and \<^verbatim>\<open>showCaption\<close> is false, the
  handler looks at the options button: if \<^verbatim>\<open>buttonRef\<close> holds a button that is not
  \<^verbatim>\<open>document.activeElement\<close>, it focuses the button, leaves the selection as it is and
  reports the event as handled; if there is no button, or the button has the focus
  already, it declines and changes nothing.
\<close>

theorem onEnter_moves_focus_to_button:
  assumes "isSelected s" and "isNodeSelection (getSelection s)"
    and "length (getNodes (getSelection s)) = 1" and "\<not> showCaption p"
  shows "(\<forall>b. buttonRef s = Some b \<and> activeElement s \<noteq> Some b \<longrightarrow>
            fst (onEnter p ev s) = True \<and>
            activeElement (snd (onEnter p ev s)) = Some b \<and>
            getSelection (snd (onEnter p ev s)) = getSelection s \<and>
            defaultPrevented (snd (onEnter p ev s))) \<and>
         (buttonRef s = None \<or> buttonRef s = activeElement s \<longrightarrow>
            onEnter p ev s = (False, s))"
  using assms
  by (auto simp: onEnter_def getSelection_def preventDefault_def focus_def
      split: option.splits)

text \<open>
  Enter on the example instance without caption: the button gets the focus. Without a
  rendered button the handler declines.
\<close>

theorem onEnter_moves_focus_to_button_witness:
  "isSelected exampleState \<and> isNodeSelection (getSelection exampleState) \<and>
   length (getNodes (getSelection exampleState)) = 1 \<and>
   \<not> showCaption (exampleProps\<lparr>showCaption := False\<rparr>) \<and>
   buttonRef exampleState = Some (ButtonElement 0) \<and>
   activeElement exampleState \<noteq> Some (ButtonElement 0) \<and>
   fst (onEnter (exampleProps\<lparr>showCaption := False\<rparr>)
          \<lparr>target = EditorRootElement 0, shiftKey = False\<rparr> exampleState) = True \<and>
   activeElement
     (snd (onEnter (exampleProps\<lparr>showCaption := False\<rparr>)
             \<lparr>target = EditorRootElement 0, shiftKey = False\<rparr> exampleState))
     = Some (ButtonElement 0) \<and>
   getSelection
     (snd (onEnter (exampleProps\<lparr>showCaption := False\<rparr>)
             \<lparr>target = EditorRootElement 0, shiftKey = False\<rparr> exampleState))
     = Some (NodeSelection [''7'']) \<and>
   onEnter (exampleProps\<lparr>showCaption := False\<rparr>)
       \<lparr>target = EditorRootElement 0, shiftKey = False\<rparr> (exampleState\<lparr>buttonRef := None\<rparr>)
     = (False, exampleState\<lparr>buttonRef := None\<rparr>)"
proof -
  let ?p = "exampleProps\<lparr>showCaption := False\<rparr>"
  let ?ev = "\<lparr>target = EditorRootElement 0, shiftKey = False\<rparr>"
  let ?u = "exampleState\<lparr>buttonRef := None\<rparr>"
  have a: "isSelected exampleState" and b: "isNodeSelection (getSelection exampleState)"
    and c: "length (getNodes (getSelection exampleState)) = 1"
    and f: "buttonRef exampleState = Some (ButtonElement 0)"
    and g: "activeElement exampleState \<noteq> Some (ButtonElement 0)"
    and h: "getSelection exampleState = Some (NodeSelection [''7''])"
    by (simp_all add: exampleState_def getSelection_def)
  have a': "isSelected ?u" and b': "isNodeSelection (getSelection ?u)"
    and c': "length (getNodes (getSelection ?u)) = 1" and f': "buttonRef ?u = None"
    by (simp_all add: exampleState_def getSelection_def)
  have d: "\<not> showCaption ?p"
    by simp
  from onEnter_moves_focus_to_button [OF a b c d, of ?ev] f g
  have "fst (onEnter ?p ?ev exampleState) = True"
    and "activeElement (snd (onEnter ?p ?ev exampleState)) = Some (ButtonElement 0)"
    and "getSelection (snd (onEnter ?p ?ev exampleState)) = Some (NodeSelection [''7''])"
    by (simp_all add: h)
  moreover from onEnter_moves_focus_to_button [OF a' b' c' d, of ?ev] f'
  have "onEnter ?p ?ev ?u = (False, ?u)"
    by blast
  ultimately show ?thesis using a b c d f g by simp
qed

text \<open>
  The button of the example instance has the focus, the node is selected alone, there
  is no caption: Enter is declined.
\<close>

theorem onEnter_declines_when_button_focused:
  "isSelected (exampleState\<lparr>activeElement := Some (ButtonElement 0)\<rparr>) \<and>
   getSelection (exampleState\<lparr>activeElement := Some (ButtonElement 0)\<rparr>)
     = Some (NodeSelection [''7'']) \<and>
   \<not> showCaption (exampleProps\<lparr>showCaption := False\<rparr>) \<and>
   onEnter (exampleProps\<lparr>showCaption := False\<rparr>)
       \<lparr>target = ButtonElement 0, shiftKey = False\<rparr>
       (exampleState\<lparr>activeElement := Some (ButtonElement 0)\<rparr>)
     = (False, exampleState\<lparr>activeElement := Some (ButtonElement 0)\<rparr>)"
  by (simp add: onEnter_def exampleProps_def exampleState_def getSelection_def)

text \<open>
  Claim C6, as amended. The claim says that Escape, received while the caption editor
  is the active editor or the options button is the target of the event, restores the
  node-level selection of this node, returns the focus to the root editing surface
  and is reported as handled, and that the handler declines otherwise. The handler
  runs when \<^verbatim>\<open>activeEditorRef.current === caption\<close> or
  \<^verbatim>\<open>buttonRef.current === event.target\<close>, and the second test also holds when there is no
  button and the event has no target. It then reports the event as handled, empties
  the selection of the editor that runs the command and adds this node to the
  node-level selection of the editor of the component, so that the node is selected:
  alone when that editor runs the command itself, together with the nodes already
  selected there when another editor, such as the caption editor, runs it. The focus
  goes to the root element of the editor of the component when it has one and stays
  where it is when it has none. Otherwise the handler declines and changes nothing.
\<close>

theorem onEscape_restores_node_selection:
  "(activeEditorRef s = Some (caption p) \<or> buttonRef s = keyTarget ev \<longrightarrow>
      fst (onEscape p running ev s) = True \<and>
      nodeSelected (snd (onEscape p running ev s)) (nodeKey p) \<and>
      (running = contextEditor p \<longrightarrow>
         getSelection (snd (onEscape p running ev s)) = Some (NodeSelection [nodeKey p]) \<and>
         nestedSelection (snd (onEscape p running ev s)) = nestedSelection s) \<and>
      (running \<noteq> contextEditor p \<longrightarrow>
         nestedSelection (snd (onEscape p running ev s)) running = None \<and>
         (\<forall>k. k \<noteq> nodeKey p \<longrightarrow>
              nodeSelected (snd (onEscape p running ev s)) k = nodeSelected s k)) \<and>
      (case getRootElement s of
         Some r \<Rightarrow> activeElement (snd (onEscape p running ev s)) = Some r
       | None \<Rightarrow> activeElement (snd (onEscape p running ev s)) = activeElement s)) \<and>
   (\<not> (activeEditorRef s = Some (caption p) \<or> buttonRef s = keyTarget ev) \<longrightarrow>
      onEscape p running ev s = (False, s))"
  by (auto simp: onEscape_def setSelectionNullIn_def setSelectionNull_def setSelected_def
      getSelection_def getRootElement_def focus_def nodeSelected_def Let_def
      split: option.splits selection.splits)

text \<open>
  Escape typed in the caption editor \<open>1\<close>, which is active, focused and holds a range
  selection, while node \<open>''3''\<close> is selected in the parent: the caption editor loses
  its selection, nodes \<open>''3''\<close> and \<open>''7''\<close> are selected in the parent, and the root
  element of the parent has the focus. Escape on the example instance itself, where
  the parent editor is active and the target is its root element, is declined.
\<close>

theorem onEscape_restores_node_selection_witness:
  "activeEditorRef
     (exampleState\<lparr>activeEditorRef := Some 1, editorSelection := Some (NodeSelection [''3'']),
                   nestedSelection := (\<lambda>_. None)(1 := Some (RangeSelection [''9''])),
                   activeElement := Some (EditorRootElement 1)\<rparr>)
     = Some (caption exampleProps) \<and>
   1 \<noteq> contextEditor exampleProps \<and>
   fst (onEscape exampleProps 1 \<lparr>keyTarget = Some (EditorRootElement 1)\<rparr>
          (exampleState\<lparr>activeEditorRef := Some 1, editorSelection := Some (NodeSelection [''3'']),
                        nestedSelection := (\<lambda>_. None)(1 := Some (RangeSelection [''9''])),
                        activeElement := Some (EditorRootElement 1)\<rparr>)) = True \<and>
   nodeSelected
     (snd (onEscape exampleProps 1 \<lparr>keyTarget = Some (EditorRootElement 1)\<rparr>
             (exampleState\<lparr>activeEditorRef := Some 1, editorSelection := Some (NodeSelection [''3'']),
                           nestedSelection := (\<lambda>_. None)(1 := Some (RangeSelection [''9''])),
                           activeElement := Some (EditorRootElement 1)\<rparr>))) ''7'' \<and>
   nodeSelected
     (snd (onEscape exampleProps 1 \<lparr>keyTarget = Some (EditorRootElement 1)\<rparr>
             (exampleState\<lparr>activeEditorRef := Some 1, editorSelection := Some (NodeSelection [''3'']),
                           nestedSelection := (\<lambda>_. None)(1 := Some (RangeSelection [''9''])),
                           activeElement := Some (EditorRootElement 1)\<rparr>))) ''3'' \<and>
   nestedSelection
     (snd (onEscape exampleProps 1 \<lparr>keyTarget = Some (EditorRootElement 1)\<rparr>
             (exampleState\<lparr>activeEditorRef := Some 1, editorSelection := Some (NodeSelection [''3'']),
                           nestedSelection := (\<lambda>_. None)(1 := Some (RangeSelection [''9''])),
                           activeElement := Some (EditorRootElement 1)\<rparr>))) 1 = None \<and>
   activeElement
     (snd (onEscape exampleProps 1 \<lparr>keyTarget = Some (EditorRootElement 1)\<rparr>
             (exampleState\<lparr>activeEditorRef := Some 1, editorSelection := Some (NodeSelection [''3'']),
                           nestedSelection := (\<lambda>_. None)(1 := Some (RangeSelection [''9''])),
                           activeElement := Some (EditorRootElement 1)\<rparr>)))
     = Some (EditorRootElement 0) \<and>
   onEscape exampleProps 0 \<lparr>keyTarget = Some (EditorRootElement 0)\<rparr> exampleState
     = (False, exampleState)"
proof -
  let ?s = "exampleState\<lparr>activeEditorRef := Some 1,
                         editorSelection := Some (NodeSelection [''3'']),
                         nestedSelection := (\<lambda>_. None)(1 := Some (RangeSelection [''9''])),
                         activeElement := Some (EditorRootElement 1)\<rparr>"
  let ?ev = "\<lparr>keyTarget = Some (EditorRootElement 1)\<rparr>"
  let ?evr = "\<lparr>keyTarget = Some (EditorRootElement 0)\<rparr>"
  have a: "activeEditorRef ?s = Some (caption exampleProps)"
    and r: "getRootElement ?s = Some (EditorRootElement 0)"
    and n: "1 \<noteq> contextEditor exampleProps"
    and k: "nodeKey exampleProps = ''7''"
    and o: "''3'' \<noteq> nodeKey exampleProps"
    and t: "nodeSelected ?s ''3''"
    and c: "\<not> (activeEditorRef exampleState = Some (caption exampleProps)
               \<or> buttonRef exampleState = keyTarget ?evr)"
    by (simp_all add: exampleState_def exampleProps_def getRootElement_def nodeSelected_def
        getSelection_def)
  note inst = onEscape_restores_node_selection [of ?s exampleProps ?ev 1]
  from inst a n o t
  have sel: "fst (onEscape exampleProps 1 ?ev ?s) = True \<and>
        nodeSelected (snd (onEscape exampleProps 1 ?ev ?s)) (nodeKey exampleProps) \<and>
        nodeSelected (snd (onEscape exampleProps 1 ?ev ?s)) ''3'' \<and>
        nestedSelection (snd (onEscape exampleProps 1 ?ev ?s)) 1 = None"
    by blast
  from inst a
  have "case getRootElement ?s of
          Some r \<Rightarrow> activeElement (snd (onEscape exampleProps 1 ?ev ?s)) = Some r
        | None \<Rightarrow> activeElement (snd (onEscape exampleProps 1 ?ev ?s)) = activeElement ?s"
    by blast
  then have foc: "activeElement (snd (onEscape exampleProps 1 ?ev ?s))
                    = Some (EditorRootElement 0)"
    by (simp only: r option.case)
  from onEscape_restores_node_selection [of exampleState exampleProps ?evr 0] c
  have dec: "onEscape exampleProps 0 ?evr exampleState = (False, exampleState)"
    by blast
  from sel have sel7: "nodeSelected (snd (onEscape exampleProps 1 ?ev ?s)) ''7''"
    by (simp only: k)
  from a n sel sel7 foc dec show ?thesis
    by blast
qed

text \<open>
  Two inputs at which the claim fails. First, the caption editor \<open>1\<close> is active and
  focused and the parent editor has no root element: Escape is reported as handled
  and the focus is still in the caption editor. Second, the parent editor is active,
  no button is rendered and the event has no target, so that neither the caption
  editor is active nor the button the target: Escape is reported as handled all the
  same.
\<close>

theorem onEscape_without_root_or_target:
  "activeEditorRef
     (exampleState\<lparr>activeEditorRef := Some 1, rootElement := None,
                   activeElement := Some (EditorRootElement 1)\<rparr>)
     = Some (caption exampleProps) \<and>
   onEscape exampleProps 1 \<lparr>keyTarget = Some (EditorRootElement 1)\<rparr>
       (exampleState\<lparr>activeEditorRef := Some 1, rootElement := None,
                     activeElement := Some (EditorRootElement 1)\<rparr>)
     = (True, exampleState\<lparr>activeEditorRef := Some 1, rootElement := None,
                            activeElement := Some (EditorRootElement 1)\<rparr>) \<and>
   activeEditorRef (exampleState\<lparr>buttonRef := None\<rparr>) \<noteq> Some (caption exampleProps) \<and>
   buttonRef (exampleState\<lparr>buttonRef := None\<rparr>) = None \<and>
   fst (onEscape exampleProps 0 \<lparr>keyTarget = None\<rparr> (exampleState\<lparr>buttonRef := None\<rparr>)) = True"
  by (simp add: onEscape_def setSelectionNullIn_def setSelectionNull_def setSelected_def
      getSelection_def getRootElement_def exampleProps_def exampleState_def Let_def)

section \<open>The context menu\<close>

text \<open>
  Claim C7, as amended. The claim says that the command is dispatched exactly when
  the event targets the image of this node and the selection is a range selection
  of exactly this node. \<^verbatim>\<open>onRightClick\<close> tests neither: it dispatches
  \<^verbatim>\<open>RIGHT_CLICK_IMAGE_COMMAND\<close> with the event as payload exactly when the target of the
  event is an \<^verbatim>\<open>IMG\<close> element, of this node or not, and the selection is a range
  selection with exactly one node, this node or another; otherwise it does nothing.
  The dispatched command has the handlers of \<^verbatim>\<open>CLICK_COMMAND\<close>, that is \<^verbatim>\<open>onClick\<close>,
  which compares the target with the image of this node.
\<close>

theorem onRightClick_dispatches_on_any_image:
  "(tagName (target ev) = ''IMG'' \<and> isRangeSelection (getSelection s)
      \<and> length (getNodes (getSelection s)) = 1 \<longrightarrow>
      onRightClick p e ev s =
        Inr (snd (onClick p ev
               (s\<lparr>dispatched := dispatched s @ [(RIGHT_CLICK_IMAGE_COMMAND, ev)]\<rparr>))) \<and>
      dispatched (projr (onRightClick p e ev s))
        = dispatched s @ [(RIGHT_CLICK_IMAGE_COMMAND, ev)]) \<and>
   (\<not> (tagName (target ev) = ''IMG'' \<and> isRangeSelection (getSelection s)
        \<and> length (getNodes (getSelection s)) = 1) \<longrightarrow>
      onRightClick p e ev s = Inr s) \<and>
   listeners p RIGHT_CLICK_IMAGE_COMMAND = listeners p CLICK_COMMAND"
  by (simp add: onRightClick_eq listeners_click onClick_dispatched)

text \<open>
  A right-click on the image of the example instance under a range selection of its
  node dispatches the command; a right-click on the button does nothing.
\<close>

theorem onRightClick_dispatches_on_any_image_witness:
  "tagName (target \<lparr>target = ImgElement 0, shiftKey = False\<rparr>) = ''IMG'' \<and>
   isRangeSelection (getSelection (exampleState\<lparr>editorSelection := Some (RangeSelection [''7''])\<rparr>)) \<and>
   length (getNodes (getSelection (exampleState\<lparr>editorSelection := Some (RangeSelection [''7''])\<rparr>))) = 1 \<and>
   dispatched (projr (onRightClick exampleProps 0 \<lparr>target = ImgElement 0, shiftKey = False\<rparr>
                        (exampleState\<lparr>editorSelection := Some (RangeSelection [''7''])\<rparr>)))
     = [(RIGHT_CLICK_IMAGE_COMMAND, \<lparr>target = ImgElement 0, shiftKey = False\<rparr>)] \<and>
   onRightClick exampleProps 0 \<lparr>target = ButtonElement 0, shiftKey = False\<rparr> exampleState
     = Inr exampleState"
proof -
  let ?s = "exampleState\<lparr>editorSelection := Some (RangeSelection [''7''])\<rparr>"
  let ?ev = "\<lparr>target = ImgElement 0, shiftKey = False\<rparr>"
  let ?evb = "\<lparr>target = ButtonElement 0, shiftKey = False\<rparr>"
  have a: "tagName (target ?ev) = ''IMG''"
    and b: "isRangeSelection (getSelection ?s)"
    and c: "length (getNodes (getSelection ?s)) = 1"
    and d: "dispatched ?s = []"
    and f: "tagName (target ?evb) \<noteq> ''IMG''"
    by (simp_all add: exampleState_def getSelection_def)
  from onRightClick_dispatches_on_any_image [of ?ev ?s exampleProps 0] a b c
  have "dispatched (projr (onRightClick exampleProps 0 ?ev ?s))
          = dispatched ?s @ [(RIGHT_CLICK_IMAGE_COMMAND, ?ev)]"
    by blast
  moreover from onRightClick_dispatches_on_any_image [of ?evb exampleState exampleProps 0] f
  have "onRightClick exampleProps 0 ?evb exampleState = Inr exampleState"
    by blast
  ultimately show ?thesis using a b c by (simp add: d)
qed

text \<open>
  A right-click on another image, \<open>ImgElement 5\<close>, while the range selection holds the
  other node \<open>''3''\<close>: the instance of node \<open>''7''\<close> dispatches the command.
\<close>

theorem onRightClick_dispatches_for_other_image:
  "imageRef (exampleState\<lparr>editorSelection := Some (RangeSelection [''3''])\<rparr>)
     \<noteq> Some (target \<lparr>target = ImgElement 5, shiftKey = False\<rparr>) \<and>
   getNodes (getSelection (exampleState\<lparr>editorSelection := Some (RangeSelection [''3''])\<rparr>))
     \<noteq> [nodeKey exampleProps] \<and>
   onRightClick exampleProps 0 \<lparr>target = ImgElement 5, shiftKey = False\<rparr>
       (exampleState\<lparr>editorSelection := Some (RangeSelection [''3''])\<rparr>)
     = Inr (exampleState\<lparr>editorSelection := Some (RangeSelection [''3'']),
                         dispatched := [(RIGHT_CLICK_IMAGE_COMMAND,
                                         \<lparr>target = ImgElement 5, shiftKey = False\<rparr>)]\<rparr>)"
  by (simp add: onRightClick_eq onClick_def getSelection_def exampleProps_def exampleState_def)

section \<open>Deletion and the mutation guard\<close>

text \<open>
  Claim C8. \<^verbatim>\<open>onDelete\<close> is the handler of both \<^verbatim>\<open>KEY_DELETE_COMMAND\<close> and
  \<^verbatim>\<open>KEY_BACKSPACE_COMMAND\<close>. When it runs while this node is selected and the selection
  is node-level, the key of this node resolves to no image node afterwards: an image
  node under the key has been removed, and every other key resolves as before. When
  the two conditions do not both hold, nothing changes.
\<close>

theorem onDelete_removes_image_node:
  "(isSelected s \<and> isNodeSelection (getSelection s) \<longrightarrow>
      (\<exists>s'. onDelete p ev s = Inr (False, s') \<and>
            \<not> isImageNode (getNodeByKey s' (nodeKey p)) \<and>
            (isImageNode (getNodeByKey s (nodeKey p)) \<longrightarrow> getNodeByKey s' (nodeKey p) = None) \<and>
            (\<forall>k. k \<noteq> nodeKey p \<longrightarrow> getNodeByKey s' k = getNodeByKey s k))) \<and>
   (\<not> (isSelected s \<and> isNodeSelection (getSelection s)) \<longrightarrow>
      onDelete p ev s = Inr (False, s)) \<and>
   map (\<lambda>h. h ev e s) (listeners p KEY_DELETE_COMMAND) = [onDelete p ev s] \<and>
   map (\<lambda>h. h ev e s) (listeners p KEY_BACKSPACE_COMMAND) = [onDelete p ev s]"
  by (cases "nodeMap s (nodeKey p)" rule: isImageNode.cases)
     (simp_all add: onDelete_def remove_def getNodeByKey_def preventDefault_def Let_def
        listeners_delete)

text \<open>
  Delete on the example instance removes node \<open>''7''\<close>; with \<^verbatim>\<open>isSelected\<close> false it
  changes nothing.
\<close>

theorem onDelete_removes_image_node_witness:
  "isSelected exampleState \<and> isNodeSelection (getSelection exampleState) \<and>
   isImageNode (getNodeByKey exampleState (nodeKey exampleProps)) \<and>
   getNodeByKey (snd (projr (onDelete exampleProps \<lparr>target = EditorRootElement 0, shiftKey = False\<rparr>
                               exampleState))) ''7'' = None \<and>
   \<not> isSelected (exampleState\<lparr>isSelected := False\<rparr>) \<and>
   onDelete exampleProps \<lparr>target = EditorRootElement 0, shiftKey = False\<rparr>
       (exampleState\<lparr>isSelected := False\<rparr>)
     = Inr (False, exampleState\<lparr>isSelected := False\<rparr>)"
proof -
  let ?ev = "\<lparr>target = EditorRootElement 0, shiftKey = False\<rparr>"
  let ?u = "exampleState\<lparr>isSelected := False\<rparr>"
  have a: "isSelected exampleState" and b: "isNodeSelection (getSelection exampleState)"
    and c: "isImageNode (getNodeByKey exampleState (nodeKey exampleProps))"
    and k: "nodeKey exampleProps = ''7''"
    and d: "\<not> isSelected ?u"
    by (simp_all add: exampleState_def exampleProps_def getSelection_def getNodeByKey_def)
  from onDelete_removes_image_node [of exampleState exampleProps ?ev 0] a b c
  obtain s' where "onDelete exampleProps ?ev exampleState = Inr (False, s')"
    and "getNodeByKey s' (nodeKey exampleProps) = None"
    by blast
  then have "getNodeByKey (snd (projr (onDelete exampleProps ?ev exampleState))) ''7'' = None"
    by (simp add: k)
  moreover from onDelete_removes_image_node [of ?u exampleProps ?ev 0] d
  have "onDelete exampleProps ?ev ?u = Inr (False, ?u)"
    by blast
  ultimately show ?thesis using a b c d by simp
qed

text \<open>
  Claim C9. When the key of this node does not resolve to an image node, each of the
  three mutating operations returns without an error and leaves the nodes and the
  selection of the document as they are: \<^verbatim>\<open>onDelete\<close>, \<^verbatim>\<open>setShowCaption\<close> (which then
  changes nothing at all) and \<^verbatim>\<open>onResizeEnd\<close>.
\<close>

theorem mutations_are_no_ops_on_unresolved_key:
  assumes "\<not> isImageNode (getNodeByKey s (nodeKey p))"
  shows "(\<exists>b s'. onDelete p ev s = Inr (b, s') \<and> nodeMap s' = nodeMap s
            \<and> editorSelection s' = editorSelection s) \<and>
         setShowCaption p s = Inr s \<and>
         (\<exists>s'. onResizeEnd p w h s = Inr s' \<and> nodeMap s' = nodeMap s
            \<and> editorSelection s' = editorSelection s)"
  using assms
  by (auto simp: onDelete_def setShowCaption_def onResizeEnd_def getNodeByKey_def
      preventDefault_def setTimeout_def Let_def)

text \<open>The three operations on the example instance after its node has been deleted.\<close>

theorem mutations_are_no_ops_on_unresolved_key_witness:
  "\<not> isImageNode (getNodeByKey (exampleState\<lparr>nodeMap := Map.empty\<rparr>) (nodeKey exampleProps)) \<and>
   \<not> isl (onDelete exampleProps \<lparr>target = EditorRootElement 0, shiftKey = False\<rparr>
            (exampleState\<lparr>nodeMap := Map.empty\<rparr>)) \<and>
   setShowCaption exampleProps (exampleState\<lparr>nodeMap := Map.empty\<rparr>)
     = Inr (exampleState\<lparr>nodeMap := Map.empty\<rparr>) \<and>
   \<not> isl (onResizeEnd exampleProps (Pixels 300) (Pixels 200)
            (exampleState\<lparr>nodeMap := Map.empty\<rparr>))"
proof -
  let ?s = "exampleState\<lparr>nodeMap := Map.empty\<rparr>"
  let ?ev = "\<lparr>target = EditorRootElement 0, shiftKey = False\<rparr>"
  have a: "\<not> isImageNode (getNodeByKey ?s (nodeKey exampleProps))"
    by (simp add: getNodeByKey_def)
  from mutations_are_no_ops_on_unresolved_key [OF a, of ?ev "Pixels 300" "Pixels 200"]
  obtain b s1 s2 where "onDelete exampleProps ?ev ?s = Inr (b, s1)"
    and "setShowCaption exampleProps ?s = Inr ?s"
    and "onResizeEnd exampleProps (Pixels 300) (Pixels 200) ?s = Inr s2"
    by blast
  with a show ?thesis by simp
qed

text \<open>
  Claim C10. \<^verbatim>\<open>onDelete\<close> always returns \<^verbatim>\<open>false\<close>, also when it has removed the node, so
  the command bus goes on to the handlers after it, which see the state that
  \<^verbatim>\<open>onDelete\<close> left. The default of the event is prevented exactly when it already was
  or the node is selected under a node-level selection.
\<close>

theorem onDelete_never_reports_handled:
  "\<exists>s'. onDelete p ev s = Inr (False, s') \<and>
        defaultPrevented s'
          = (defaultPrevented s \<or> isSelected s \<and> isNodeSelection (getSelection s)) \<and>
        triggerCommandListeners ((\<lambda>ev _ s. onDelete p ev s) # hs) ev e s
          = triggerCommandListeners hs ev e s'"
  by (cases "nodeMap s (nodeKey p)" rule: isImageNode.cases)
     (auto simp: onDelete_def remove_def getNodeByKey_def preventDefault_def Let_def)

text \<open>Delete on the example instance, where the node is removed.\<close>

theorem onDelete_never_reports_handled_witness:
  "fst (projr (onDelete exampleProps \<lparr>target = EditorRootElement 0, shiftKey = False\<rparr>
                 exampleState)) = False \<and>
   \<not> isl (onDelete exampleProps \<lparr>target = EditorRootElement 0, shiftKey = False\<rparr> exampleState)"
proof -
  from onDelete_never_reports_handled
         [of exampleProps "\<lparr>target = EditorRootElement 0, shiftKey = False\<rparr>" exampleState "[]" 0]
  obtain s' where
    "onDelete exampleProps \<lparr>target = EditorRootElement 0, shiftKey = False\<rparr> exampleState
       = Inr (False, s')"
    by blast
  then show ?thesis by simp
qed

end
